theory Spec2Isabelle
  imports Complex_Main
begin

section \<open>Atlas-Web: the state and handlers of \<open>src/App.tsx\<close>\<close>

text \<open>
  The application is one React component, \<open>App\<close>, with a handful of state cells and
  event handlers, and one effect component, \<open>MapUpdater\<close>. A handler is modelled as a
  function from the state it was rendered with to the new state and the outward effects
  it performs (a blocking alert, a console line); the effect of \<open>MapUpdater\<close> is the
  list of commands it sends to the map widget.
\<close>

subsection \<open>JavaScript values and object literals\<close>

text \<open>
  The two density tables are object literals read with a computed key,
  \<^verbatim>\<open>withParachute[sail] || 0\<close>. A property read on an object literal yields the
  own property when there is one, and otherwise walks to \<open>Object.prototype\<close>, whose
  properties (\<open>toString\<close>, \<open>constructor\<close>, ...) every object literal inherits; only
  when neither has the key is the result \<open>undefined\<close>. The values such a read can give
  are therefore a number or an inherited builtin; \<open>undefined\<close> is \<open>None\<close>.
\<close>

datatype jsval =
    Num int
  | Inherited string

text \<open>The property names of an unmodified \<open>Object.prototype\<close> in a browser.\<close>

definition objectPrototype :: "string list" where
  "objectPrototype =
     [''constructor'', ''hasOwnProperty'', ''isPrototypeOf'', ''propertyIsEnumerable'',
      ''toLocaleString'', ''toString'', ''valueOf'', ''__proto__'',
      ''__defineGetter__'', ''__defineSetter__'', ''__lookupGetter__'', ''__lookupSetter__'']"

text \<open>\<^verbatim>\<open>obj[key]\<close> for an object literal with the given own (numeric) properties.\<close>

definition getProp :: "(string \<times> int) list \<Rightarrow> string \<Rightarrow> jsval option" where
  "getProp own key =
     (case map_of own key of
        Some n \<Rightarrow> Some (Num n)
      | None \<Rightarrow> if key \<in> set objectPrototype then Some (Inherited key) else None)"

text \<open>Truthiness of a defined value: \<open>0\<close> is falsy, functions and objects are truthy.\<close>

fun truthy :: "jsval \<Rightarrow> bool" where
  "truthy (Num n) = (n \<noteq> 0)"
| "truthy (Inherited k) = True"

text \<open>\<^verbatim>\<open>a || d\<close>: the left operand when it is truthy (\<open>undefined\<close> is not), else the
  right one.\<close>

fun orElse :: "jsval option \<Rightarrow> jsval \<Rightarrow> jsval" where
  "orElse None d = d"
| "orElse (Some v) d = (if truthy v then v else d)"

subsection \<open>Data model\<close>

type_synonym latlng = "real \<times> real"

record Route =
  name :: string
  source :: latlng
  destination :: latlng

record FlightParams =
  altitude :: real
  velocity :: real
  geography :: real
  contingency :: real

record CertSettings =
  sail :: string
  hasParachute :: bool
  densitySuppression :: jsval
  relaxation :: real

record TrajectorySettings =
  distanceFwd :: real
  distanceBack :: real
  minTurningRadius :: real
  maxWaypointDistance :: real
  maxLateralDrift :: real

datatype MapLayer = satellite | streets | hybrid

text \<open>
  The state cells of \<open>App\<close>, with the mapping held by the \<open>useRoutes\<close> hook. The
  mapping is a plain object, \<open>Record<string, Route>\<close>; \<open>routes\<close> holds its own
  entries, and a read \<^verbatim>\<open>routes[name]\<close> goes through \<open>getRoute\<close> below.
\<close>

record AppState =
  selectedRoute :: string
  showAddRoute :: bool
  isAnalyzing :: bool
  routes :: "string \<rightharpoonup> Route"
  mapLayer :: MapLayer
  flightParams :: FlightParams
  certSettings :: CertSettings
  trajectorySettings :: TrajectorySettings

definition initialCertSettings :: CertSettings where
  "initialCertSettings =
     \<lparr>sail = ''SAIL 2'', hasParachute = False, densitySuppression = Num 0, relaxation = 750\<rparr>"

text \<open>The initial values of the state cells; the mapping the hook starts with is not
  in the sources and is a parameter.\<close>

definition initialAppState :: "(string \<rightharpoonup> Route) \<Rightarrow> AppState" where
  "initialAppState rts =
     \<lparr>selectedRoute = [], showAddRoute = False, isAnalyzing = False, routes = rts,
      mapLayer = satellite,
      flightParams = \<lparr>altitude = 2500, velocity = 55, geography = 125, contingency = 300\<rparr>,
      certSettings = initialCertSettings,
      trajectorySettings = \<lparr>distanceFwd = 200, distanceBack = 150, minTurningRadius = 50,
        maxWaypointDistance = 500, maxLateralDrift = 30\<rparr>\<rparr>"

subsection \<open>Certification settings: queued state updates\<close>

text \<open>
  \<open>setCertSettings\<close> is called either with an updater \<^verbatim>\<open>prev => ...\<close>, which React
  applies to the pending state, or with a value built from the \<open>certSettings\<close> the
  handler was rendered with. A handler's calls are queued and applied in order; a value
  is the updater that ignores its argument.
\<close>

type_synonym setStateAction = "CertSettings \<Rightarrow> CertSettings"

definition applyQueue :: "setStateAction list \<Rightarrow> CertSettings \<Rightarrow> CertSettings" where
  "applyQueue q s = foldl (\<lambda>st u. u st) s q"

definition withoutParachute :: "(string \<times> int) list" where
  "withoutParachute = [(''SAIL 2'', 0), (''SAIL 3'', 5), (''SAIL 4'', 50), (''SAIL 6'', 5000)]"

definition withParachute :: "(string \<times> int) list" where
  "withParachute = [(''SAIL 2'', 5), (''SAIL 3'', 50), (''SAIL 4'', 500)]"

definition updateDensitySuppression :: "string \<Rightarrow> bool \<Rightarrow> setStateAction list" where
  "updateDensitySuppression sl hp =
     (let density = (if hp then orElse (getProp withParachute sl) (Num 0)
                     else orElse (getProp withoutParachute sl) (Num 0))
      in [\<lambda>prev. prev\<lparr>densitySuppression := density\<rparr>])"

text \<open>The \<open>onChange\<close> handlers of the SAIL select, the parachute checkbox and the
  controlled-area input; \<open>rendered\<close> is the \<open>certSettings\<close> of the closure.\<close>

definition onSailChange :: "CertSettings \<Rightarrow> string \<Rightarrow> setStateAction list" where
  "onSailChange rendered newSail =
     (\<lambda>prev. prev\<lparr>sail := newSail\<rparr>) # updateDensitySuppression newSail (hasParachute rendered)"

definition onParachuteChange :: "CertSettings \<Rightarrow> bool \<Rightarrow> setStateAction list" where
  "onParachuteChange rendered checked =
     (\<lambda>prev. prev\<lparr>hasParachute := checked\<rparr>) # updateDensitySuppression (sail rendered) checked"

definition onRelaxationChange :: "CertSettings \<Rightarrow> real \<Rightarrow> setStateAction list" where
  "onRelaxationChange rendered v = [\<lambda>_. rendered\<lparr>relaxation := v\<rparr>]"

text \<open>The options the SAIL select renders: \<open>SAIL 6\<close> only without a parachute.\<close>

definition sailOptions :: "CertSettings \<Rightarrow> string list" where
  "sailOptions rendered =
     [''SAIL 2'', ''SAIL 3'', ''SAIL 4''] @ (if \<not> hasParachute rendered then [''SAIL 6''] else [])"

text \<open>
  What the user can do to the certification panel. Each event is handled by the handler
  of the current render and the queue is applied before the next event. The select
  delivers the value of one of its rendered options, the checkbox the negation of its
  controlled \<open>checked\<close> attribute, the number input any number.
\<close>

datatype certEvent =
    SailSelect string
  | ParachuteToggle
  | RelaxationInput real

fun enabled :: "CertSettings \<Rightarrow> certEvent \<Rightarrow> bool" where
  "enabled s (SailSelect v) = (v \<in> set (sailOptions s))"
| "enabled s ParachuteToggle = True"
| "enabled s (RelaxationInput v) = True"

fun fire :: "CertSettings \<Rightarrow> certEvent \<Rightarrow> CertSettings" where
  "fire s (SailSelect v) = applyQueue (onSailChange s v) s"
| "fire s ParachuteToggle = applyQueue (onParachuteChange s (\<not> hasParachute s)) s"
| "fire s (RelaxationInput v) = applyQueue (onRelaxationChange s v) s"

inductive reachable :: "CertSettings \<Rightarrow> bool" where
  init: "reachable initialCertSettings"
| step: "reachable s \<Longrightarrow> enabled s e \<Longrightarrow> reachable (fire s e)"

text \<open>The lookup the specification describes: the value of the pair in the table for
  the parachute flag, and zero for a category the table does not have.\<close>

definition tableLookup :: "string \<Rightarrow> bool \<Rightarrow> int" where
  "tableLookup sl hp =
     (case map_of (if hp then withParachute else withoutParachute) sl of
        Some n \<Rightarrow> n
      | None \<Rightarrow> 0)"

text \<open>The categories the select can ever offer.\<close>

definition knownSail :: "string \<Rightarrow> bool" where
  "knownSail v = (v \<in> set [''SAIL 2'', ''SAIL 3'', ''SAIL 4'', ''SAIL 6''])"

subsection \<open>Routes\<close>

text \<open>Modelled from the spec: \<open>addRoute\<close> of the \<open>useRoutes\<close> hook
  (\<open>src/hooks/useRoutes\<close>, not among the sources). The route store's
  \<open>add(name, source, destination)\<close> inserts or overwrites the entry for \<open>name\<close>; a
  route is the record of its name, source and destination.\<close>

definition addRoute :: "string \<Rightarrow> latlng \<Rightarrow> latlng \<Rightarrow> (string \<rightharpoonup> Route) \<Rightarrow> (string \<rightharpoonup> Route)" where
  "addRoute nm src dst rts = rts(nm \<mapsto> \<lparr>name = nm, source = src, destination = dst\<rparr>)"

text \<open>Modelled from the spec: \<open>deleteRoute\<close> of the \<open>useRoutes\<close> hook
  (\<open>src/hooks/useRoutes\<close>, not among the sources). The route store's \<open>delete(name)\<close>
  removes the entry if present and is a no-op otherwise.\<close>

definition deleteRoute :: "string \<Rightarrow> (string \<rightharpoonup> Route) \<Rightarrow> (string \<rightharpoonup> Route)" where
  "deleteRoute nm rts = rts(nm := None)"

text \<open>
  \<^verbatim>\<open>routes[key]\<close>: the route stored under the key, else what the object inherits
  under that name from \<open>Object.prototype\<close>, else \<open>undefined\<close> (\<open>None\<close>). Both kinds
  of value are truthy. An inherited function or object has no \<open>source\<close> and no
  \<open>destination\<close> property: reading one gives \<open>undefined\<close>.
\<close>

datatype routeValue =
    RouteObject Route
  | InheritedValue string

definition getRoute :: "(string \<rightharpoonup> Route) \<Rightarrow> string \<Rightarrow> routeValue option" where
  "getRoute rts key =
     (case rts key of
        Some r \<Rightarrow> Some (RouteObject r)
      | None \<Rightarrow> if key \<in> set objectPrototype then Some (InheritedValue key) else None)"

fun sourceOf :: "routeValue \<Rightarrow> latlng option" where
  "sourceOf (RouteObject r) = Some (source r)"
| "sourceOf (InheritedValue k) = None"

fun destinationOf :: "routeValue \<Rightarrow> latlng option" where
  "destinationOf (RouteObject r) = Some (destination r)"
| "destinationOf (InheritedValue k) = None"

text \<open>The route the page treats as selected, \<^verbatim>\<open>selectedRoute && routes[selectedRoute]\<close>:
  the guard of the effect of \<open>MapUpdater\<close> and of the markers and the line on the map.\<close>

definition selectedRouteValue :: "AppState \<Rightarrow> routeValue option" where
  "selectedRouteValue s =
     (if selectedRoute s \<noteq> [] then getRoute (routes s) (selectedRoute s) else None)"

definition handleAddRoute :: "string \<Rightarrow> latlng \<Rightarrow> latlng \<Rightarrow> AppState \<Rightarrow> AppState" where
  "handleAddRoute nm src dst s =
     s\<lparr>routes := addRoute nm src dst (routes s), showAddRoute := False, selectedRoute := nm\<rparr>"

text \<open>A string is truthy when it is not empty.\<close>

definition handleDeleteRoute :: "AppState \<Rightarrow> AppState" where
  "handleDeleteRoute s =
     (if selectedRoute s \<noteq> []
      then s\<lparr>routes := deleteRoute (selectedRoute s) (routes s), selectedRoute := []\<rparr>
      else s)"

subsection \<open>The drawing overlay\<close>

text \<open>What a handler does outside the component state.\<close>

text \<open>What \<open>getLatLngs\<close> returns: the vertices of a line, or the rings of a closed
  shape.\<close>

datatype Coordinates =
    Line "latlng list"
  | Rings "latlng list list"

datatype effect =
    Alert string
  | ConsoleLog string Coordinates

definition handleAnalyzePopulation :: "AppState \<Rightarrow> AppState \<times> effect list" where
  "handleAnalyzePopulation s =
     (if selectedRoute s = [] then (s, [Alert ''Please select a route first''])
      else (s\<lparr>isAnalyzing := True\<rparr>, []))"

text \<open>
  The layers the drawing plugin can complete. In Leaflet \<open>Rectangle\<close> extends
  \<open>Polygon\<close>, which extends \<open>Polyline\<close>; circles and markers are unrelated. A polyline,
  polygon or rectangle carries its vertices, which \<open>getLatLngs\<close> returns (the flat
  list for a polyline, the rings for the closed shapes); the other layers have no such
  method.
\<close>

datatype Layer =
    Polyline "latlng list"
  | Polygon "latlng list list"
  | Rectangle "latlng list list"
  | Circle latlng real
  | CircleMarker latlng
  | Marker latlng

fun instanceofPolygon :: "Layer \<Rightarrow> bool" where
  "instanceofPolygon (Polygon c) = True"
| "instanceofPolygon (Rectangle c) = True"
| "instanceofPolygon _ = False"

fun instanceofRectangle :: "Layer \<Rightarrow> bool" where
  "instanceofRectangle (Rectangle c) = True"
| "instanceofRectangle _ = False"

fun getLatLngs :: "Layer \<Rightarrow> Coordinates option" where
  "getLatLngs (Polygon c) = Some (Rings c)"
| "getLatLngs (Rectangle c) = Some (Rings c)"
| "getLatLngs (Polyline c) = Some (Line c)"
| "getLatLngs _ = None"

definition handleDrawComplete :: "Layer \<Rightarrow> AppState \<Rightarrow> AppState \<times> effect list" where
  "handleDrawComplete layer s =
     (let logged =
        (if instanceofPolygon layer \<or> instanceofRectangle layer
         then (case getLatLngs layer of
                 Some coordinates \<Rightarrow> [ConsoleLog ''Drawn shape coordinates:'' coordinates]
               | None \<Rightarrow> [])
         else [])
      in (s\<lparr>isAnalyzing := False\<rparr>, logged))"

subsection \<open>The map view synchronizer\<close>

text \<open>
  Leaflet's \<open>L.latLngBounds(points)\<close> starts with no corners and extends the box by
  each point in turn: an \<open>undefined\<close> point leaves the box as it is, the first point
  becomes both corners, a later one lowers the south-west corner and raises the
  north-east one componentwise.
\<close>

datatype LatLngBounds =
    NoCorners
  | Corners (southWest: latlng) (northEast: latlng)

fun extend :: "LatLngBounds \<Rightarrow> latlng option \<Rightarrow> LatLngBounds" where
  "extend b None = b"
| "extend NoCorners (Some p) = Corners p p"
| "extend (Corners sw ne) (Some p) =
     Corners (min (fst p) (fst sw), min (snd p) (snd sw))
             (max (fst p) (fst ne), max (snd p) (snd ne))"

definition latLngBounds :: "latlng option list \<Rightarrow> LatLngBounds" where
  "latLngBounds ps = foldl extend NoCorners ps"

text \<open>The commands \<open>MapUpdater\<close> sends to the map widget: \<open>fitBounds\<close> with its box
  and its \<open>padding\<close> option, in pixels. (The widget throws on a box without corners; the
  call is made all the same.)\<close>

datatype mapCommand = FitBounds LatLngBounds "int \<times> int"

text \<open>The body of the effect, run when \<open>selectedRoute\<close>, \<open>routes\<close> or the map change.\<close>

definition MapUpdater :: "string \<Rightarrow> (string \<rightharpoonup> Route) \<Rightarrow> mapCommand list" where
  "MapUpdater sel rts =
     (if sel \<noteq> [] then
        (case getRoute rts sel of
           Some route \<Rightarrow>
             (let bounds = latLngBounds [sourceOf route, destinationOf route]
              in [FitBounds bounds (50, 50)])
         | None \<Rightarrow> [])
      else [])"


text \<open>A box holds a point when the point lies between its corners; a box lies within
  another when both its corners do.\<close>

fun holds :: "LatLngBounds \<Rightarrow> latlng \<Rightarrow> bool" where
  "holds NoCorners p = False"
| "holds (Corners sw ne) p =
     (fst sw \<le> fst p \<and> fst p \<le> fst ne \<and> snd sw \<le> snd p \<and> snd p \<le> snd ne)"

fun liesWithin :: "LatLngBounds \<Rightarrow> LatLngBounds \<Rightarrow> bool" where
  "liesWithin NoCorners b = True"
| "liesWithin (Corners sw ne) b = (holds b sw \<and> holds b ne)"

section \<open>Properties\<close>

subsection \<open>Density suppression\<close>









subsection \<open>The certification panel\<close>

lemma fire_sail:
  "applyQueue (onSailChange s v) s = s\<lparr>sail := v,
     densitySuppression := (if hasParachute s then orElse (getProp withParachute v) (Num 0)
                            else orElse (getProp withoutParachute v) (Num 0))\<rparr>"
  by (simp add: applyQueue_def onSailChange_def updateDensitySuppression_def)

lemma fire_parachute:
  "applyQueue (onParachuteChange s (\<not> hasParachute s)) s = s\<lparr>hasParachute := \<not> hasParachute s,
     densitySuppression :=
       (if \<not> hasParachute s then orElse (getProp withParachute (sail s)) (Num 0)
        else orElse (getProp withoutParachute (sail s)) (Num 0))\<rparr>"
  by (simp add: applyQueue_def onParachuteChange_def updateDensitySuppression_def)

lemma fire_relaxation: "applyQueue (onRelaxationChange s v) s = s\<lparr>relaxation := v\<rparr>"
  by (simp add: applyQueue_def onRelaxationChange_def)

text \<open>
  C2. The state with \<open>SAIL 6\<close> selected and the parachute checked is claimed
  unreachable. The select hides the \<open>SAIL 6\<close> option once the parachute is checked,
  but the checkbox has no guard the other way: from the initial settings, choosing
  \<open>SAIL 6\<close> (offered, as there is no parachute) and then checking the parachute
  reaches exactly that state.
\<close>

theorem parachute_with_SAIL6_reachable:
  "reachable (fire (fire initialCertSettings (SailSelect ''SAIL 6'')) ParachuteToggle) \<and>
   fire (fire initialCertSettings (SailSelect ''SAIL 6'')) ParachuteToggle =
     \<lparr>sail = ''SAIL 6'', hasParachute = True, densitySuppression = Num 0, relaxation = 750\<rparr>"
proof
  have "enabled initialCertSettings (SailSelect ''SAIL 6'')"
    by (simp add: sailOptions_def initialCertSettings_def)
  then have "reachable (fire initialCertSettings (SailSelect ''SAIL 6''))"
    by (rule reachable.step [OF reachable.init])
  then show "reachable (fire (fire initialCertSettings (SailSelect ''SAIL 6'')) ParachuteToggle)"
    by (rule reachable.step) simp
next
  show "fire (fire initialCertSettings (SailSelect ''SAIL 6'')) ParachuteToggle =
     \<lparr>sail = ''SAIL 6'', hasParachute = True, densitySuppression = Num 0, relaxation = 750\<rparr>"
    by (simp add: applyQueue_def onSailChange_def onParachuteChange_def
        updateDensitySuppression_def getProp_def withParachute_def withoutParachute_def
        objectPrototype_def initialCertSettings_def)
qed

text \<open>On the categories the select offers the code's read agrees with the table
  lookup of the specification, and no other category is ever stored.\<close>

lemma knownSail_lookup:
  "knownSail v \<Longrightarrow>
   orElse (getProp (if hp then withParachute else withoutParachute) v) (Num 0)
     = Num (tableLookup v hp)"
  by (auto simp: knownSail_def getProp_def tableLookup_def withParachute_def
      withoutParachute_def objectPrototype_def)

lemma reachable_knownSail: "reachable s \<Longrightarrow> knownSail (sail s)"
proof (induction rule: reachable.induct)
  case init
  show ?case by (simp add: knownSail_def initialCertSettings_def)
next
  case (step s e)
  then show ?case
    by (cases e) (auto simp: fire_sail fire_parachute fire_relaxation sailOptions_def knownSail_def)
qed

text \<open>
  C4. In every state reachable from the initial certification settings by a change of
  the SAIL select, of the parachute checkbox or of the controlled-area input, the
  \<open>densitySuppression\<close> field is the table lookup at the current \<open>sail\<close> and
  \<open>hasParachute\<close>, zero for a pair the applicable table does not have.
\<close>

theorem densitySuppression_is_lookup:
  "reachable s \<Longrightarrow> densitySuppression s = Num (tableLookup (sail s) (hasParachute s))"
proof (induction rule: reachable.induct)
  case init
  show ?case by (simp add: initialCertSettings_def tableLookup_def withoutParachute_def)
next
  case (step s e)
  have known: "knownSail (sail s)" using step.hyps(1) by (rule reachable_knownSail)
  show ?case
  proof (cases e)
    case (SailSelect v)
    with step.hyps(2) have "knownSail v"
      by (auto simp: sailOptions_def knownSail_def)
    then show ?thesis
      using knownSail_lookup [of v True] knownSail_lookup [of v False] SailSelect
      by (simp add: fire_sail)
  next
    case ParachuteToggle
    then show ?thesis
      using knownSail_lookup [OF known, of True] knownSail_lookup [OF known, of False]
      by (simp add: fire_parachute)
  next
    case (RelaxationInput v)
    then show ?thesis using step.IH by (simp add: fire_relaxation)
  qed
qed

theorem densitySuppression_is_lookup_witness:
  "reachable (fire initialCertSettings (SailSelect ''SAIL 4'')) \<and>
   densitySuppression (fire initialCertSettings (SailSelect ''SAIL 4'')) = Num 50"
proof -
  have "enabled initialCertSettings (SailSelect ''SAIL 4'')"
    by (simp add: sailOptions_def)
  then have r: "reachable (fire initialCertSettings (SailSelect ''SAIL 4''))"
    by (rule reachable.step [OF reachable.init])
  show ?thesis
    using r densitySuppression_is_lookup [OF r]
    by (simp add: fire_sail tableLookup_def withoutParachute_def initialCertSettings_def)
qed

subsection \<open>Routes and selection\<close>

text \<open>
  C5. In every state in which some route name is selected, the delete action removes
  that route from the store, leaving the other routes, and sets the selection to the
  empty name, which is no selection.
\<close>

theorem handleDeleteRoute_clears_selection:
  "selectedRoute s \<noteq> [] \<Longrightarrow>
   routes (handleDeleteRoute s) (selectedRoute s) = None \<and>
   dom (routes (handleDeleteRoute s)) = dom (routes s) - {selectedRoute s} \<and>
   selectedRoute (handleDeleteRoute s) = []"
  by (auto simp: handleDeleteRoute_def deleteRoute_def)

theorem handleDeleteRoute_clears_selection_witness:
  "selectedRoute (handleAddRoute ''R1'' (51, 0) (48, 2) (initialAppState Map.empty)) \<noteq> [] \<and>
   routes (handleAddRoute ''R1'' (51, 0) (48, 2) (initialAppState Map.empty)) ''R1'' \<noteq> None \<and>
   routes (handleDeleteRoute (handleAddRoute ''R1'' (51, 0) (48, 2) (initialAppState Map.empty)))
     ''R1'' = None \<and>
   selectedRoute (handleDeleteRoute (handleAddRoute ''R1'' (51, 0) (48, 2) (initialAppState Map.empty)))
     = []"
  using handleDeleteRoute_clears_selection
          [of "handleAddRoute ''R1'' (51, 0) (48, 2) (initialAppState Map.empty)"]
  by (simp add: handleAddRoute_def addRoute_def initialAppState_def)

text \<open>
  C9, as stated, at the empty name: the route is stored under it, but the selection is
  then the empty name, which the page reads as no selection, so the new route is not
  selected and the synchronizer does not fit the map to it.
\<close>

theorem handleAddRoute_empty_name_counterexample:
  "routes (handleAddRoute [] (51, 0) (48, 2) (initialAppState Map.empty)) []
     = Some \<lparr>name = [], source = (51, 0), destination = (48, 2)\<rparr> \<and>
   selectedRouteValue (handleAddRoute [] (51, 0) (48, 2) (initialAppState Map.empty)) = None \<and>
   MapUpdater (selectedRoute (handleAddRoute [] (51, 0) (48, 2) (initialAppState Map.empty)))
              (routes (handleAddRoute [] (51, 0) (48, 2) (initialAppState Map.empty))) = []"
  by (simp add: handleAddRoute_def addRoute_def initialAppState_def selectedRouteValue_def
      MapUpdater_def)

text \<open>
  C9, amended. For every name, source and destination, the add-route handler puts the
  route into the store under its name, closes the add-route modal and sets the
  selection to that name; when the name is not empty, the new route is the selected
  route immediately after being added.
\<close>

theorem handleAddRoute_selects_new_route:
  "routes (handleAddRoute nm src dst s) nm = Some \<lparr>name = nm, source = src, destination = dst\<rparr> \<and>
   showAddRoute (handleAddRoute nm src dst s) = False \<and>
   selectedRoute (handleAddRoute nm src dst s) = nm \<and>
   (nm \<noteq> [] \<longrightarrow>
      selectedRouteValue (handleAddRoute nm src dst s)
        = Some (RouteObject \<lparr>name = nm, source = src, destination = dst\<rparr>))"
  by (simp add: handleAddRoute_def addRoute_def selectedRouteValue_def getRoute_def)

theorem handleAddRoute_selects_new_route_witness:
  "''R1'' \<noteq> [] \<and>
   selectedRoute (handleAddRoute ''R1'' (51, 0) (48, 2) (initialAppState Map.empty)) = ''R1'' \<and>
   selectedRouteValue (handleAddRoute ''R1'' (51, 0) (48, 2) (initialAppState Map.empty))
     = Some (RouteObject \<lparr>name = ''R1'', source = (51, 0), destination = (48, 2)\<rparr>)"
  using handleAddRoute_selects_new_route [of "''R1''" "(51, 0)" "(48, 2)" "initialAppState Map.empty"]
  by simp

subsection \<open>The drawing overlay\<close>

text \<open>
  C3. The analyze-populations action with an empty selection gives the notice and
  returns the state as it was, so the analyzing flag is not set; with a route selected
  it sets the analyzing flag, changes nothing else and gives no notice.
\<close>

theorem handleAnalyzePopulation_guard:
  "(selectedRoute s = [] \<longrightarrow>
      handleAnalyzePopulation s = (s, [Alert ''Please select a route first''])) \<and>
   (selectedRoute s \<noteq> [] \<longrightarrow>
      handleAnalyzePopulation s = (s\<lparr>isAnalyzing := True\<rparr>, []))"
  by (simp add: handleAnalyzePopulation_def)

theorem handleAnalyzePopulation_guard_witness:
  "selectedRoute (initialAppState Map.empty) = [] \<and>
   snd (handleAnalyzePopulation (initialAppState Map.empty))
     = [Alert ''Please select a route first''] \<and>
   \<not> isAnalyzing (fst (handleAnalyzePopulation (initialAppState Map.empty))) \<and>
   selectedRoute ((initialAppState Map.empty)\<lparr>selectedRoute := ''R1''\<rparr>) \<noteq> [] \<and>
   isAnalyzing (fst (handleAnalyzePopulation
                       ((initialAppState Map.empty)\<lparr>selectedRoute := ''R1''\<rparr>))) \<and>
   snd (handleAnalyzePopulation ((initialAppState Map.empty)\<lparr>selectedRoute := ''R1''\<rparr>)) = []"
  using handleAnalyzePopulation_guard [of "initialAppState Map.empty"]
    handleAnalyzePopulation_guard [of "(initialAppState Map.empty)\<lparr>selectedRoute := ''R1''\<rparr>"]
  by (simp add: initialAppState_def)

text \<open>
  C6. In every state in which the analyzing flag is set, completing the draw of a
  rectangle or of a polygon clears the flag.
\<close>

theorem handleDrawComplete_shape_clears:
  "isAnalyzing s \<Longrightarrow>
   \<not> isAnalyzing (fst (handleDrawComplete (Rectangle c) s)) \<and>
   \<not> isAnalyzing (fst (handleDrawComplete (Polygon c) s))"
  by (simp add: handleDrawComplete_def)

theorem handleDrawComplete_shape_clears_witness:
  "isAnalyzing ((initialAppState Map.empty)\<lparr>isAnalyzing := True\<rparr>) \<and>
   \<not> isAnalyzing (fst (handleDrawComplete (Rectangle [[(0, 0), (0, 1), (1, 1), (1, 0)]])
                        ((initialAppState Map.empty)\<lparr>isAnalyzing := True\<rparr>))) \<and>
   \<not> isAnalyzing (fst (handleDrawComplete (Polygon [[(0, 0), (0, 1), (1, 1), (1, 0)]])
                        ((initialAppState Map.empty)\<lparr>isAnalyzing := True\<rparr>)))"
  using handleDrawComplete_shape_clears
          [of "(initialAppState Map.empty)\<lparr>isAnalyzing := True\<rparr>"
              "[[(0, 0), (0, 1), (1, 1), (1, 0)]]"]
  by simp

text \<open>
  C10. For every completed layer the handler returns the state with the analyzing flag
  cleared and nothing else changed; for a layer that is neither a polygon nor a
  rectangle it logs no vertex list.
\<close>

theorem handleDrawComplete_any_layer:
  "fst (handleDrawComplete layer s) = s\<lparr>isAnalyzing := False\<rparr> \<and>
   (\<not> instanceofPolygon layer \<and> \<not> instanceofRectangle layer \<longrightarrow>
      snd (handleDrawComplete layer s) = [])"
  by (simp add: handleDrawComplete_def)

theorem handleDrawComplete_any_layer_witness:
  "\<not> instanceofPolygon (Marker (51, 0)) \<and> \<not> instanceofRectangle (Marker (51, 0)) \<and>
   handleDrawComplete (Marker (51, 0)) ((initialAppState Map.empty)\<lparr>isAnalyzing := True\<rparr>)
     = (initialAppState Map.empty, [])"
  using handleDrawComplete_any_layer
          [of "Marker (51, 0)" "(initialAppState Map.empty)\<lparr>isAnalyzing := True\<rparr>"]
  by (simp add: handleDrawComplete_def initialAppState_def)

subsection \<open>The map view synchronizer\<close>

lemma latLngBounds_pair:
  "latLngBounds [Some a, Some b] =
     Corners (min (fst b) (fst a), min (snd b) (snd a)) (max (fst b) (fst a), max (snd b) (snd a))"
  by (simp add: latLngBounds_def)

text \<open>
  C7. When a route name is selected (the empty name is no selection) and it resolves
  to a route of the mapping, the synchronizer issues exactly one command, a bounds fit
  with padding 50 by 50, whose box holds the source and the destination of the route
  and lies within every box that holds both.
\<close>

theorem MapUpdater_fits_selected_route:
  "sel \<noteq> [] \<Longrightarrow> rts sel = Some r \<Longrightarrow>
   \<exists>b. MapUpdater sel rts = [FitBounds b (50, 50)] \<and>
       holds b (source r) \<and> holds b (destination r) \<and>
       (\<forall>b'. holds b' (source r) \<and> holds b' (destination r) \<longrightarrow> liesWithin b b')"
proof -
  assume sel: "sel \<noteq> []" and r: "rts sel = Some r"
  let ?b = "latLngBounds [Some (source r), Some (destination r)]"
  have cmd: "MapUpdater sel rts = [FitBounds ?b (50, 50)]"
    using sel r by (simp add: MapUpdater_def getRoute_def)
  have h1: "holds ?b (source r)" and h2: "holds ?b (destination r)"
    by (simp_all add: latLngBounds_pair)
  have least: "liesWithin ?b b'" if "holds b' (source r) \<and> holds b' (destination r)" for b'
    using that by (cases b') (auto simp: latLngBounds_pair min_def max_def)
  show ?thesis using cmd h1 h2 least by blast
qed

theorem MapUpdater_fits_selected_route_witness:
  "''R1'' \<noteq> [] \<and>
   [''R1'' \<mapsto> \<lparr>name = ''R1'', source = (51, 0), destination = (48, 2)\<rparr>] ''R1''
     = Some \<lparr>name = ''R1'', source = (51, 0), destination = (48, 2)\<rparr> \<and>
   MapUpdater ''R1'' [''R1'' \<mapsto> \<lparr>name = ''R1'', source = (51, 0), destination = (48, 2)\<rparr>]
     = [FitBounds (Corners (48, 0) (51, 2)) (50, 50)] \<and>
   holds (Corners (40, -5) (60, 10)) (51, 0) \<and> holds (Corners (40, -5) (60, 10)) (48, 2) \<and>
   liesWithin (Corners (48, 0) (51, 2)) (Corners (40, -5) (60, 10))"
  using MapUpdater_fits_selected_route
          [of "''R1''" "[''R1'' \<mapsto> \<lparr>name = ''R1'', source = (51, 0), destination = (48, 2)\<rparr>]"
              "\<lparr>name = ''R1'', source = (51, 0), destination = (48, 2)\<rparr>"]
  by (simp add: MapUpdater_def getRoute_def latLngBounds_pair)




end
